theory Spec2Isabelle
  imports Complex_Main "HOL-Library.Sublist" "HOL-Library.AList"
begin

section \<open>Python values\<close>

text \<open>
  The arguments \<^verbatim>\<open>deprecated_arg\<close> and \<^verbatim>\<open>new_arg\<close> are annotated \<^verbatim>\<open>Any\<close>. The code
  only ever asks two things of them: their truth value (\<^verbatim>\<open>if x\<close>, \<^verbatim>\<open>x and y\<close>) and
  whether they differ (\<^verbatim>\<open>x != y\<close>). The values modelled are \<^verbatim>\<open>None\<close>, booleans,
  unbounded integers, floating point numbers, strings and lists of such values.
  Objects with their own \<^verbatim>\<open>__bool__\<close> or \<^verbatim>\<open>__eq__\<close> are not modelled.
\<close>

text \<open>
  A floating point number is a NaN, an infinity or a finite number. Only the truth
  value and the equality of a number are looked at, so a finite number is given by
  its value, a rational (the two zeros, equal and both false, are one value). A NaN
  carries the identity of its object: \<^verbatim>\<open>==\<close> on numbers never holds for a NaN, but
  the comparison of lists looks at the identity of the elements first.
\<close>

datatype pyfloat = NaN nat | PosInf | NegInf | Finite rat

datatype pyval =
    PNone
  | PBool bool
  | PInt int
  | PFloat pyfloat
  | PStr string
  | PList "pyval list"

text \<open>Python's truth value testing: \<^verbatim>\<open>None\<close>, \<^verbatim>\<open>False\<close>, zero and empty
  sequences are false, everything else is true; a NaN and the infinities are not
  zero.\<close>

fun truthy_float :: "pyfloat \<Rightarrow> bool" where
  "truthy_float (Finite r) = (r \<noteq> 0)"
| "truthy_float _ = True"

fun truthy :: "pyval \<Rightarrow> bool" where
  "truthy PNone = False"
| "truthy (PBool b) = b"
| "truthy (PInt i) = (i \<noteq> 0)"
| "truthy (PFloat f) = truthy_float f"
| "truthy (PStr s) = (s \<noteq> [])"
| "truthy (PList xs) = (xs \<noteq> [])"

text \<open>\<^verbatim>\<open>==\<close> on two floating point numbers, and on a floating point number and an
  integer (compared by value). A NaN is equal to nothing, not even to itself.\<close>

fun float_eq :: "pyfloat \<Rightarrow> pyfloat \<Rightarrow> bool" where
  "float_eq (Finite a) (Finite b) = (a = b)"
| "float_eq PosInf PosInf = True"
| "float_eq NegInf NegInf = True"
| "float_eq _ _ = False"

fun float_eq_int :: "pyfloat \<Rightarrow> int \<Rightarrow> bool" where
  "float_eq_int (Finite a) i = (a = of_int i)"
| "float_eq_int _ i = False"

text \<open>\<^verbatim>\<open>x is y\<close> where it can differ from \<^verbatim>\<open>x == y\<close> being true: an object that is
  identical to another is equal to it, unless it is a NaN.\<close>

fun same_nan :: "pyval \<Rightarrow> pyval \<Rightarrow> bool" where
  "same_nan (PFloat (NaN i)) (PFloat (NaN j)) = (i = j)"
| "same_nan _ _ = False"

text \<open>Python's \<^verbatim>\<open>==\<close>. \<^verbatim>\<open>bool\<close> is a subclass of \<^verbatim>\<open>int\<close>, so \<^verbatim>\<open>True == 1\<close> and
  \<^verbatim>\<open>False == 0\<close>; numbers are compared by value; lists are compared element by
  element, two elements counting as equal when \<^verbatim>\<open>x is y or x == y\<close>; values of
  otherwise different types are unequal.\<close>

fun int_of_bool :: "bool \<Rightarrow> int" where
  "int_of_bool True = 1"
| "int_of_bool False = 0"

fun py_eq :: "pyval \<Rightarrow> pyval \<Rightarrow> bool"
  and py_eq_list :: "pyval list \<Rightarrow> pyval list \<Rightarrow> bool" where
  "py_eq PNone PNone = True"
| "py_eq (PBool a) (PBool b) = (a = b)"
| "py_eq (PBool a) (PInt j) = (int_of_bool a = j)"
| "py_eq (PBool a) (PFloat g) = float_eq_int g (int_of_bool a)"
| "py_eq (PInt i) (PBool b) = (i = int_of_bool b)"
| "py_eq (PInt i) (PInt j) = (i = j)"
| "py_eq (PInt i) (PFloat g) = float_eq_int g i"
| "py_eq (PFloat f) (PBool b) = float_eq_int f (int_of_bool b)"
| "py_eq (PFloat f) (PInt j) = float_eq_int f j"
| "py_eq (PFloat f) (PFloat g) = float_eq f g"
| "py_eq (PStr s) (PStr t) = (s = t)"
| "py_eq (PList xs) (PList ys) = py_eq_list xs ys"
| "py_eq _ _ = False"
| "py_eq_list [] [] = True"
| "py_eq_list (x # xs) (y # ys) = ((same_nan x y \<or> py_eq x y) \<and> py_eq_list xs ys)"
| "py_eq_list _ _ = False"

text \<open>Python's \<^verbatim>\<open>!=\<close> on these values is the negation of \<^verbatim>\<open>==\<close>.\<close>

definition py_ne :: "pyval \<Rightarrow> pyval \<Rightarrow> bool" where
  "py_ne a b = (\<not> py_eq a b)"

section \<open>The warning channel\<close>

datatype category = PTBDeprecationWarning

record warning =
  message :: string
  category :: category
  stacklevel :: int

type_synonym channel = "warning list"

text \<open>
  Modelled from the spec: \<^verbatim>\<open>telegram._utils.warnings.warn\<close> is imported by the module
  but its code is not part of the sources at hand. The specification describes the
  warning channel as accepting a message, a category marker and a stack depth and
  recording them; emission is advisory only and never raises. A call appends one
  record to the channel.
\<close>

definition warn :: "string \<Rightarrow> category \<Rightarrow> int \<Rightarrow> channel \<Rightarrow> channel" where
  "warn msg cat lvl ch = ch @ [\<lparr>message = msg, category = cat, stacklevel = lvl\<rparr>]"

section \<open>Errors\<close>

datatype error = ValueError string | TypeError

section \<open>Message texts\<close>

text \<open>A name between single quotes, as the f-strings write \<^verbatim>\<open>'{name}'\<close>.\<close>

definition quoted :: "string \<Rightarrow> string" where
  "quoted s = [CHR 0x27] @ s @ [CHR 0x27]"

definition conflict_message :: "string \<Rightarrow> string \<Rightarrow> string \<Rightarrow> string" where
  "conflict_message deprecated_arg_name new_arg_name bot_api_version =
     ''You passed different entities as '' @ quoted deprecated_arg_name @ '' and '' @
     quoted new_arg_name @ ''. '' @
     ''The parameter '' @ quoted deprecated_arg_name @ '' was renamed to '' @
     quoted new_arg_name @ '' in Bot API '' @
     bot_api_version @ ''. We recommend using '' @ quoted new_arg_name @ '' instead of '' @
     quoted deprecated_arg_name @ ''.''"

definition renamed_argument_message :: "string \<Rightarrow> string \<Rightarrow> string \<Rightarrow> string" where
  "renamed_argument_message deprecated_arg_name new_arg_name bot_api_version =
     ''Bot API '' @ bot_api_version @ '' renamed the argument '' @
     quoted deprecated_arg_name @ '' to '' @
     quoted new_arg_name @ ''.''"

section \<open>\<^verbatim>\<open>warn_about_deprecated_arg_return_new_arg\<close>\<close>

text \<open>
  The function either raises \<^verbatim>\<open>ValueError\<close> (left) or returns a value (right); the
  second component is the warning channel after the call. The chained \<^verbatim>\<open>and\<close> of the
  first test is true exactly when all three operands are true.
\<close>

definition warn_about_deprecated_arg_return_new_arg ::
  "pyval \<Rightarrow> pyval \<Rightarrow> string \<Rightarrow> string \<Rightarrow> string \<Rightarrow> int \<Rightarrow> channel
     \<Rightarrow> (error + pyval) \<times> channel" where
  "warn_about_deprecated_arg_return_new_arg deprecated_arg new_arg deprecated_arg_name
       new_arg_name bot_api_version stacklvl ch =
     (if truthy deprecated_arg \<and> truthy new_arg \<and> py_ne deprecated_arg new_arg then
        (Inl (ValueError
           (conflict_message deprecated_arg_name new_arg_name bot_api_version)), ch)
      else if truthy deprecated_arg then
        (Inr deprecated_arg,
         warn (renamed_argument_message deprecated_arg_name new_arg_name bot_api_version)
           PTBDeprecationWarning stacklvl ch)
      else
        (Inr new_arg, ch))"

section \<open>\<^verbatim>\<open>warn_about_deprecated_attr_in_property\<close>\<close>

definition renamed_attribute_message :: "string \<Rightarrow> string \<Rightarrow> string \<Rightarrow> string" where
  "renamed_attribute_message deprecated_attr_name new_attr_name bot_api_version =
     ''Bot API '' @ bot_api_version @ '' renamed the attribute '' @
     quoted deprecated_attr_name @ '' to '' @
     quoted new_attr_name @ ''.''"

text \<open>The body is the single call of \<^verbatim>\<open>warn\<close>; the function then falls off its end,
  which in Python returns \<^verbatim>\<open>None\<close>.\<close>

definition warn_about_deprecated_attr_in_property ::
  "string \<Rightarrow> string \<Rightarrow> string \<Rightarrow> int \<Rightarrow> channel \<Rightarrow> (error + pyval) \<times> channel" where
  "warn_about_deprecated_attr_in_property deprecated_attr_name new_attr_name
       bot_api_version stacklvl ch =
     (Inr PNone,
      warn (renamed_attribute_message deprecated_attr_name new_attr_name bot_api_version)
        PTBDeprecationWarning stacklvl ch)"

section \<open>Calls with positional and keyword arguments\<close>

text \<open>A keyword dictionary (\<^verbatim>\<open>**kwargs\<close>) keeps its keys in insertion order.\<close>

type_synonym kwargs = "(string \<times> pyval) list"

definition keys :: "kwargs \<Rightarrow> string list" where
  "keys kw = map fst kw"

text \<open>\<^verbatim>\<open>{**keywords, **fkeywords}\<close>: the entries of the second dictionary are written
  into the first one after the other; a key already there keeps its place and gets
  the new value, a new key goes to the end.\<close>

definition dict_merge :: "kwargs \<Rightarrow> kwargs \<Rightarrow> kwargs" where
  "dict_merge keywords fkeywords = fold (\<lambda>(k, v). AList.update k v) fkeywords keywords"

text \<open>
  Python binds the arguments of a call to the parameters of a function with plain
  positional-or-keyword parameters as follows. Each parameter (a name and, possibly,
  a default) takes the next positional argument while there is one; it is a
  \<^verbatim>\<open>TypeError\<close> if the same name is also given as a keyword. Without a positional
  argument left, the parameter takes the keyword argument of its name, else its
  default, and the call is a \<^verbatim>\<open>TypeError\<close> if it has neither. Positional arguments
  or keywords left over at the end are a \<^verbatim>\<open>TypeError\<close> as well.
\<close>

fun bind_arguments ::
  "(string \<times> pyval option) list \<Rightarrow> pyval list \<Rightarrow> kwargs \<Rightarrow> error + pyval list" where
  "bind_arguments [] [] kw = (if kw = [] then Inr [] else Inl TypeError)"
| "bind_arguments [] (a # as) kw = Inl TypeError"
| "bind_arguments ((p, dflt) # ps) (a # as) kw =
     (if p \<in> set (keys kw) then Inl TypeError
      else (case bind_arguments ps as kw of
              Inl e \<Rightarrow> Inl e
            | Inr vs \<Rightarrow> Inr (a # vs)))"
| "bind_arguments ((p, dflt) # ps) [] kw =
     (case map_of kw p of
        Some v \<Rightarrow>
          (case bind_arguments ps [] (AList.delete p kw) of
             Inl e \<Rightarrow> Inl e
           | Inr vs \<Rightarrow> Inr (v # vs))
      | None \<Rightarrow>
          (case dflt of
             None \<Rightarrow> Inl TypeError
           | Some d \<Rightarrow>
               (case bind_arguments ps [] kw of
                  Inl e \<Rightarrow> Inl e
                | Inr vs \<Rightarrow> Inr (d # vs))))"

text \<open>The signature of \<^verbatim>\<open>warn_about_deprecated_arg_return_new_arg\<close>: five required
  parameters and \<^verbatim>\<open>stacklevel\<close> with the default 3.\<close>

definition parameters :: "(string \<times> pyval option) list" where
  "parameters =
     [(''deprecated_arg'', None), (''new_arg'', None), (''deprecated_arg_name'', None),
      (''new_arg_name'', None), (''bot_api_version'', None), (''stacklevel'', Some (PInt 3))]"

text \<open>
  A call of \<^verbatim>\<open>warn_about_deprecated_arg_return_new_arg\<close> with positional and keyword
  arguments. A call that cannot be bound raises \<^verbatim>\<open>TypeError\<close> before the body runs.
  The result is \<open>None\<close> where the three names are not strings or the stack level is
  not an integer: these calls are outside the annotated signature
  (\<^verbatim>\<open>str\<close>, \<^verbatim>\<open>str\<close>, \<^verbatim>\<open>str\<close>, \<^verbatim>\<open>int\<close>) and the model does not describe them.
\<close>

definition call_warn_about_deprecated_arg_return_new_arg ::
  "pyval list \<Rightarrow> kwargs \<Rightarrow> channel \<Rightarrow> ((error + pyval) \<times> channel) option" where
  "call_warn_about_deprecated_arg_return_new_arg args kw ch =
     (case bind_arguments parameters args kw of
        Inl e \<Rightarrow> Some (Inl e, ch)
      | Inr [deprecated_arg, new_arg, PStr deprecated_arg_name, PStr new_arg_name,
             PStr bot_api_version, PInt stacklvl] \<Rightarrow>
          Some (warn_about_deprecated_arg_return_new_arg deprecated_arg new_arg
                  deprecated_arg_name new_arg_name bot_api_version stacklvl ch)
      | Inr _ \<Rightarrow> None)"

section \<open>\<^verbatim>\<open>warn_about_thumb_return_thumbnail\<close>\<close>

text \<open>\<^verbatim>\<open>functools.partial(func, *args, **keywords)\<close> is a callable that, called with
  \<^verbatim>\<open>(*fargs, **fkeywords)\<close>, calls
  \<^verbatim>\<open>func(*args, *fargs, **{**keywords, **fkeywords})\<close>.\<close>

definition partial ::
  "(pyval list \<Rightarrow> kwargs \<Rightarrow> 'r) \<Rightarrow> pyval list \<Rightarrow> kwargs \<Rightarrow> pyval list \<Rightarrow> kwargs \<Rightarrow> 'r" where
  "partial func args keywords fargs fkeywords =
     func (args @ fargs) (dict_merge keywords fkeywords)"

definition warn_about_thumb_return_thumbnail ::
  "pyval list \<Rightarrow> kwargs \<Rightarrow> channel \<Rightarrow> ((error + pyval) \<times> channel) option" where
  "warn_about_thumb_return_thumbnail =
     partial call_warn_about_deprecated_arg_return_new_arg []
       [(''deprecated_arg_name'', PStr ''thumb''),
        (''new_arg_name'', PStr ''thumbnail''),
        (''bot_api_version'', PStr ''6.6'')]"

section \<open>\<^verbatim>\<open>warn_about_required_renamed_param_passed_as_kwarg\<close>\<close>

definition renamed_kwarg_message :: "string \<Rightarrow> string \<Rightarrow> string \<Rightarrow> string" where
  "renamed_kwarg_message deprecated new bot_api_version =
     ''Bot API '' @ bot_api_version @ '' renamed the argument '' @
     quoted deprecated @ '' to '' @ quoted new @
     ''. Make sure you rename it in your code.''"

text \<open>The \<^verbatim>\<open>for\<close> loop of the wrapper over the zipped names: one step for each pair,
  in order, warning when the deprecated name is a key of \<^verbatim>\<open>kwargs\<close>.\<close>

fun warn_loop :: "(string \<times> string) list \<Rightarrow> string \<Rightarrow> kwargs \<Rightarrow> channel \<Rightarrow> channel" where
  "warn_loop [] bot_api_version kw ch = ch"
| "warn_loop ((deprecated, new) # rest) bot_api_version kw ch =
     warn_loop rest bot_api_version kw
       (if deprecated \<in> set (keys kw) then
          warn (renamed_kwarg_message deprecated new bot_api_version)
            PTBDeprecationWarning 3 ch
        else ch)"

text \<open>
  The decorator applied to \<open>func\<close> and the resulting wrapper applied to a call. The
  wrapped function is any function of the positional arguments, the keyword
  arguments and the warning channel; what it yields (a value or an exception, and the
  channel as it leaves it) is of an arbitrary type \<open>'r\<close>. \<^verbatim>\<open>zip\<close> stops at the end of
  the shorter sequence, in Python as in HOL.
\<close>

definition warn_about_required_renamed_param_passed_as_kwarg ::
  "string list \<Rightarrow> string list \<Rightarrow> string
     \<Rightarrow> (pyval list \<Rightarrow> kwargs \<Rightarrow> channel \<Rightarrow> 'r)
     \<Rightarrow> pyval list \<Rightarrow> kwargs \<Rightarrow> channel \<Rightarrow> 'r" where
  "warn_about_required_renamed_param_passed_as_kwarg deprecated_param_names
       new_param_names bot_api_version func args kw ch =
     func args kw
       (warn_loop (zip deprecated_param_names new_param_names) bot_api_version kw ch)"

section \<open>Facts about values and message texts\<close>

text \<open>Every value but a NaN is equal to itself; a list is, whatever it holds.\<close>

lemma py_eq_list_same:
  "(\<And>x. x \<in> set xs \<Longrightarrow> same_nan x x \<or> py_eq x x) \<Longrightarrow> py_eq_list xs xs"
  by (induction xs) auto

lemma same_nan_or_py_eq: "same_nan x x \<or> py_eq x x"
proof (induction x)
  case (PFloat f)
  then show ?case by (cases f) auto
next
  case (PList xs)
  then show ?case by (simp add: py_eq_list_same)
qed auto

lemma py_ne_same_iff: "py_ne x x \<longleftrightarrow> (\<exists>i. x = PFloat (NaN i))"
proof (cases x)
  case (PFloat f)
  then show ?thesis by (cases f) (auto simp: py_ne_def)
next
  case (PList xs)
  have "py_eq_list xs xs"
    by (rule py_eq_list_same) (rule same_nan_or_py_eq)
  with PList show ?thesis by (simp add: py_ne_def)
qed (auto simp: py_ne_def)

lemma sublist_skip: "sublist s m \<Longrightarrow> sublist s (a @ m)"
  unfolding sublist_def by (metis append.assoc)

lemma sublist_quoted_head: "sublist s (quoted s @ b)"
proof -
  have "quoted s @ b = [CHR 0x27] @ s @ ([CHR 0x27] @ b)"
    by (simp add: quoted_def)
  then show ?thesis
    by (metis sublist_appendI)
qed

text \<open>Each message text contains the two names and the version it was built from.
  The texts are concatenations; the proofs walk along the segments to the one sought.\<close>

lemma conflict_message_names:
  "sublist dn (conflict_message dn nn v)"
  "sublist nn (conflict_message dn nn v)"
  "sublist v (conflict_message dn nn v)"
  unfolding conflict_message_def
  by (rule sublist_quoted_head | rule sublist_append_rightI | rule sublist_skip)+

lemma renamed_argument_message_names:
  "sublist dn (renamed_argument_message dn nn v)"
  "sublist nn (renamed_argument_message dn nn v)"
  "sublist v (renamed_argument_message dn nn v)"
  unfolding renamed_argument_message_def
  by (rule sublist_quoted_head | rule sublist_append_rightI | rule sublist_skip)+

lemma renamed_attribute_message_names:
  "sublist dn (renamed_attribute_message dn nn v)"
  "sublist nn (renamed_attribute_message dn nn v)"
  "sublist v (renamed_attribute_message dn nn v)"
  unfolding renamed_attribute_message_def
  by (rule sublist_quoted_head | rule sublist_append_rightI | rule sublist_skip)+

section \<open>Resolution of a renamed argument\<close>

text \<open>
  Claim C1. \<^verbatim>\<open>warn_about_deprecated_arg_return_new_arg\<close> raises the conflict error
  exactly when both \<^verbatim>\<open>deprecated_arg\<close> and \<^verbatim>\<open>new_arg\<close> are truthy and unequal. The
  error is then a \<^verbatim>\<open>ValueError\<close> whose message contains both argument names and the
  API version. In every other case the call returns a value: \<^verbatim>\<open>deprecated_arg\<close> when
  that is truthy, \<^verbatim>\<open>new_arg\<close> otherwise.
\<close>

theorem conflict_error_exactly_when:
  "(isl (fst (warn_about_deprecated_arg_return_new_arg d n dn nn v lvl ch))
      \<longleftrightarrow> truthy d \<and> truthy n \<and> py_ne d n) \<and>
   (truthy d \<and> truthy n \<and> py_ne d n \<longrightarrow>
      fst (warn_about_deprecated_arg_return_new_arg d n dn nn v lvl ch)
        = Inl (ValueError (conflict_message dn nn v)) \<and>
      sublist dn (conflict_message dn nn v) \<and>
      sublist nn (conflict_message dn nn v) \<and>
      sublist v (conflict_message dn nn v)) \<and>
   (\<not> (truthy d \<and> truthy n \<and> py_ne d n) \<longrightarrow>
      fst (warn_about_deprecated_arg_return_new_arg d n dn nn v lvl ch)
        = Inr (if truthy d then d else n))"
  by (simp add: warn_about_deprecated_arg_return_new_arg_def conflict_message_names)

text \<open>The theorem at two calls: \<^verbatim>\<open>"a.jpg"\<close> against \<^verbatim>\<open>"b.jpg"\<close> raises, \<^verbatim>\<open>True\<close>
  against \<^verbatim>\<open>1\<close> (equal in Python) returns.\<close>

theorem conflict_error_exactly_when_witness:
  "isl (fst (warn_about_deprecated_arg_return_new_arg (PStr ''a.jpg'') (PStr ''b.jpg'')
          ''thumb'' ''thumbnail'' ''6.6'' 3 [])) \<and>
   fst (warn_about_deprecated_arg_return_new_arg (PStr ''a.jpg'') (PStr ''b.jpg'')
          ''thumb'' ''thumbnail'' ''6.6'' 3 [])
     = Inl (ValueError (conflict_message ''thumb'' ''thumbnail'' ''6.6'')) \<and>
   sublist ''thumb'' (conflict_message ''thumb'' ''thumbnail'' ''6.6'') \<and>
   sublist ''thumbnail'' (conflict_message ''thumb'' ''thumbnail'' ''6.6'') \<and>
   sublist ''6.6'' (conflict_message ''thumb'' ''thumbnail'' ''6.6'') \<and>
   \<not> isl (fst (warn_about_deprecated_arg_return_new_arg (PBool True) (PInt 1)
          ''thumb'' ''thumbnail'' ''6.6'' 3 [])) \<and>
   fst (warn_about_deprecated_arg_return_new_arg (PBool True) (PInt 1)
          ''thumb'' ''thumbnail'' ''6.6'' 3 []) = Inr (PBool True)"
proof -
  have differ: "truthy (PStr ''a.jpg'') \<and> truthy (PStr ''b.jpg'')
      \<and> py_ne (PStr ''a.jpg'') (PStr ''b.jpg'')"
    by (simp add: py_ne_def)
  have same: "\<not> (truthy (PBool True) \<and> truthy (PInt 1) \<and> py_ne (PBool True) (PInt 1))"
    by (simp add: py_ne_def)
  from differ same show ?thesis
    using conflict_error_exactly_when
        [of "PStr ''a.jpg''" "PStr ''b.jpg''" "''thumb''" "''thumbnail''" "''6.6''" 3 "[]"]
      conflict_error_exactly_when
        [of "PBool True" "PInt 1" "''thumb''" "''thumbnail''" "''6.6''" 3 "[]"]
    by simp
qed

text \<open>
  Claim C2. When only the deprecated argument is present, that is \<^verbatim>\<open>deprecated_arg\<close>
  is truthy and \<^verbatim>\<open>new_arg\<close> is not, the call appends exactly one deprecation notice
  to the channel, whose message contains the old name, the new name and the API
  version, and returns \<^verbatim>\<open>deprecated_arg\<close>.
\<close>

theorem only_deprecated_present:
  "truthy d \<Longrightarrow> \<not> truthy n \<Longrightarrow>
     warn_about_deprecated_arg_return_new_arg d n dn nn v lvl ch
       = (Inr d, ch @ [\<lparr>message = renamed_argument_message dn nn v,
                         category = PTBDeprecationWarning, stacklevel = lvl\<rparr>]) \<and>
     sublist dn (renamed_argument_message dn nn v) \<and>
     sublist nn (renamed_argument_message dn nn v) \<and>
     sublist v (renamed_argument_message dn nn v)"
  by (simp add: warn_about_deprecated_arg_return_new_arg_def warn_def
      renamed_argument_message_names)

text \<open>The scenario of the specification: \<^verbatim>\<open>"a.jpg"\<close> for \<^verbatim>\<open>thumb\<close>, nothing for
  \<^verbatim>\<open>thumbnail\<close>, Bot API 6.6.\<close>

theorem only_deprecated_present_witness:
  "warn_about_deprecated_arg_return_new_arg (PStr ''a.jpg'') PNone
       ''thumb'' ''thumbnail'' ''6.6'' 3 []
     = (Inr (PStr ''a.jpg''),
        [\<lparr>message = ''Bot API 6.6 renamed the argument 'thumb' to 'thumbnail'.'',
          category = PTBDeprecationWarning, stacklevel = 3\<rparr>]) \<and>
   sublist ''thumb'' ''Bot API 6.6 renamed the argument 'thumb' to 'thumbnail'.'' \<and>
   sublist ''thumbnail'' ''Bot API 6.6 renamed the argument 'thumb' to 'thumbnail'.'' \<and>
   sublist ''6.6'' ''Bot API 6.6 renamed the argument 'thumb' to 'thumbnail'.''"
proof -
  have present: "truthy (PStr ''a.jpg'')" and absent: "\<not> truthy PNone"
    by simp_all
  have literal: "renamed_argument_message ''thumb'' ''thumbnail'' ''6.6''
      = ''Bot API 6.6 renamed the argument 'thumb' to 'thumbnail'.''"
    by (simp add: renamed_argument_message_def quoted_def)
  show ?thesis
    using only_deprecated_present [OF present absent, of "''thumb''" "''thumbnail''" "''6.6''" 3 "[]"]
    by (simp add: literal)
qed

text \<open>
  Claim C3 states that for every value \<open>X\<close>, with no restriction to truthy ones, the
  call with \<^verbatim>\<open>deprecated_arg = X\<close> and \<^verbatim>\<open>new_arg = None\<close> returns \<open>X\<close> and emits
  exactly one notice. The code tests the truth value of \<^verbatim>\<open>deprecated_arg\<close>: for
  \<^verbatim>\<open>None\<close> it emits no notice, and for \<^verbatim>\<open>0\<close> it emits none either and returns
  \<^verbatim>\<open>None\<close>, not \<^verbatim>\<open>0\<close>.
\<close>

theorem every_deprecated_value_counterexample:
  "warn_about_deprecated_arg_return_new_arg (PInt 0) PNone ''thumb'' ''thumbnail'' ''6.6'' 3 []
     = (Inr PNone, []) \<and>
   fst (warn_about_deprecated_arg_return_new_arg (PInt 0) PNone
          ''thumb'' ''thumbnail'' ''6.6'' 3 []) \<noteq> Inr (PInt 0) \<and>
   length (snd (warn_about_deprecated_arg_return_new_arg (PInt 0) PNone
          ''thumb'' ''thumbnail'' ''6.6'' 3 [])) \<noteq> 1 \<and>
   length (snd (warn_about_deprecated_arg_return_new_arg PNone PNone
          ''thumb'' ''thumbnail'' ''6.6'' 3 [])) \<noteq> 1"
  by (simp add: warn_about_deprecated_arg_return_new_arg_def)

text \<open>
  Claim C3, amended. For every truthy value \<open>X\<close>, the call with
  \<^verbatim>\<open>deprecated_arg = X\<close> and \<^verbatim>\<open>new_arg = None\<close> returns \<open>X\<close> and appends exactly one
  deprecation notice to the channel; for \<^verbatim>\<open>deprecated_arg = None\<close> it returns
  \<^verbatim>\<open>None\<close> and leaves the channel as it was.
\<close>

theorem truthy_deprecated_value_returned:
  "(truthy x \<longrightarrow>
      warn_about_deprecated_arg_return_new_arg x PNone dn nn v lvl ch
        = (Inr x, ch @ [\<lparr>message = renamed_argument_message dn nn v,
                          category = PTBDeprecationWarning, stacklevel = lvl\<rparr>])) \<and>
   warn_about_deprecated_arg_return_new_arg PNone PNone dn nn v lvl ch = (Inr PNone, ch)"
  by (simp add: warn_about_deprecated_arg_return_new_arg_def warn_def)

theorem truthy_deprecated_value_returned_witness:
  "truthy (PList [PNone]) \<and>
   warn_about_deprecated_arg_return_new_arg (PList [PNone]) PNone ''old'' ''new'' ''7.0'' 2 []
     = (Inr (PList [PNone]),
        [\<lparr>message = renamed_argument_message ''old'' ''new'' ''7.0'',
          category = PTBDeprecationWarning, stacklevel = 2\<rparr>]) \<and>
   warn_about_deprecated_arg_return_new_arg PNone PNone ''old'' ''new'' ''7.0'' 2 []
     = (Inr PNone, [])"
proof -
  have present: "truthy (PList [PNone])"
    by simp
  from present show ?thesis
    using truthy_deprecated_value_returned
      [of "PList [PNone]" "''old''" "''new''" "''7.0''" 2 "[]"]
    by simp
qed

text \<open>
  Claim C4. A falsy \<^verbatim>\<open>deprecated_arg\<close> (\<^verbatim>\<open>None\<close>, \<^verbatim>\<open>False\<close>, zero, the empty string, the
  empty list) is treated as not provided: whatever \<^verbatim>\<open>new_arg\<close> is, the call returns
  \<^verbatim>\<open>new_arg\<close>, raises nothing and leaves the channel as it was, exactly as the call
  with \<^verbatim>\<open>deprecated_arg = None\<close> does.
\<close>

theorem falsy_deprecated_not_provided:
  "\<not> truthy d \<Longrightarrow>
     warn_about_deprecated_arg_return_new_arg d n dn nn v lvl ch = (Inr n, ch) \<and>
     warn_about_deprecated_arg_return_new_arg d n dn nn v lvl ch
       = warn_about_deprecated_arg_return_new_arg PNone n dn nn v lvl ch"
  by (simp add: warn_about_deprecated_arg_return_new_arg_def)

theorem falsy_deprecated_not_provided_witness:
  "warn_about_deprecated_arg_return_new_arg (PInt 0) (PStr ''b.jpg'')
       ''thumb'' ''thumbnail'' ''6.6'' 3 [] = (Inr (PStr ''b.jpg''), []) \<and>
   warn_about_deprecated_arg_return_new_arg (PStr []) (PInt 7)
       ''thumb'' ''thumbnail'' ''6.6'' 3 [] = (Inr (PInt 7), []) \<and>
   warn_about_deprecated_arg_return_new_arg (PStr []) (PInt 7)
       ''thumb'' ''thumbnail'' ''6.6'' 3 []
     = warn_about_deprecated_arg_return_new_arg PNone (PInt 7)
         ''thumb'' ''thumbnail'' ''6.6'' 3 []"
proof -
  have zero: "\<not> truthy (PInt 0)" and empty: "\<not> truthy (PStr [])"
    by simp_all
  show ?thesis
    using falsy_deprecated_not_provided
        [OF zero, of "PStr ''b.jpg''" "''thumb''" "''thumbnail''" "''6.6''" 3 "[]"]
      falsy_deprecated_not_provided
        [OF empty, of "PInt 7" "''thumb''" "''thumbnail''" "''6.6''" 3 "[]"]
    by (simp add: warn_about_deprecated_arg_return_new_arg_def)
qed

text \<open>
  Claim C5 states that for every value \<open>X\<close> passed as \<^verbatim>\<open>deprecated_arg\<close> and as
  \<^verbatim>\<open>new_arg\<close> the call returns \<open>X\<close> and raises no conflict error. A floating point
  NaN is truthy and unequal to itself: passed as both arguments it raises the
  conflict error and nothing is returned.
\<close>

theorem same_value_twice_counterexample:
  "warn_about_deprecated_arg_return_new_arg (PFloat (NaN 0)) (PFloat (NaN 0))
       ''thumb'' ''thumbnail'' ''6.6'' 3 []
     = (Inl (ValueError (conflict_message ''thumb'' ''thumbnail'' ''6.6'')), []) \<and>
   fst (warn_about_deprecated_arg_return_new_arg (PFloat (NaN 0)) (PFloat (NaN 0))
       ''thumb'' ''thumbnail'' ''6.6'' 3 []) \<noteq> Inr (PFloat (NaN 0))"
  by (simp add: warn_about_deprecated_arg_return_new_arg_def py_ne_def)

text \<open>
  Claim C5, amended. For every value \<open>X\<close> that is not unequal to itself (not
  \<^verbatim>\<open>X != X\<close>; that is every modelled value but a floating point NaN), the call with
  \<open>X\<close> as \<^verbatim>\<open>deprecated_arg\<close> and as \<^verbatim>\<open>new_arg\<close> returns \<open>X\<close> and raises no conflict
  error; it appends a deprecation notice if and only if \<open>X\<close> is truthy.
\<close>

theorem same_value_twice:
  "\<not> py_ne x x \<Longrightarrow>
     warn_about_deprecated_arg_return_new_arg x x dn nn v lvl ch
       = (Inr x,
          if truthy x
          then ch @ [\<lparr>message = renamed_argument_message dn nn v,
                       category = PTBDeprecationWarning, stacklevel = lvl\<rparr>]
          else ch)"
  by (simp add: warn_about_deprecated_arg_return_new_arg_def warn_def)

text \<open>The theorem at a truthy list that holds a NaN (the same object on both sides) and
  at the falsy \<^verbatim>\<open>0.0\<close>.\<close>

theorem same_value_twice_witness:
  "\<not> py_ne (PList [PFloat (NaN 0)]) (PList [PFloat (NaN 0)]) \<and>
   warn_about_deprecated_arg_return_new_arg
       (PList [PFloat (NaN 0)]) (PList [PFloat (NaN 0)])
       ''thumb'' ''thumbnail'' ''6.6'' 3 []
     = (Inr (PList [PFloat (NaN 0)]),
        [\<lparr>message = renamed_argument_message ''thumb'' ''thumbnail'' ''6.6'',
          category = PTBDeprecationWarning, stacklevel = 3\<rparr>]) \<and>
   \<not> py_ne (PFloat (Finite 0)) (PFloat (Finite 0)) \<and>
   warn_about_deprecated_arg_return_new_arg (PFloat (Finite 0)) (PFloat (Finite 0))
       ''thumb'' ''thumbnail'' ''6.6'' 3 [] = (Inr (PFloat (Finite 0)), [])"
proof -
  have held: "\<not> py_ne (PList [PFloat (NaN 0)]) (PList [PFloat (NaN 0)])"
    by (simp add: py_ne_same_iff)
  have zero: "\<not> py_ne (PFloat (Finite 0)) (PFloat (Finite 0))"
    by (simp add: py_ne_same_iff)
  from held zero show ?thesis
    using same_value_twice
        [OF held, of "''thumb''" "''thumbnail''" "''6.6''" 3 "[]"]
      same_value_twice
        [OF zero, of "''thumb''" "''thumbnail''" "''6.6''" 3 "[]"]
    by simp
qed

text \<open>
  Claim C10. Whenever the call raises the conflict error, the warning channel after
  the call is the channel before it: the conflict test comes first and no notice is
  emitted on that path.
\<close>

theorem conflict_leaves_channel:
  "isl (fst (warn_about_deprecated_arg_return_new_arg d n dn nn v lvl ch)) \<Longrightarrow>
     snd (warn_about_deprecated_arg_return_new_arg d n dn nn v lvl ch) = ch"
  by (simp add: warn_about_deprecated_arg_return_new_arg_def split: if_splits)

theorem conflict_leaves_channel_witness:
  "isl (fst (warn_about_deprecated_arg_return_new_arg (PInt 1) (PInt 2)
          ''thumb'' ''thumbnail'' ''6.6'' 3
          [\<lparr>message = ''earlier'', category = PTBDeprecationWarning, stacklevel = 1\<rparr>])) \<and>
   snd (warn_about_deprecated_arg_return_new_arg (PInt 1) (PInt 2)
          ''thumb'' ''thumbnail'' ''6.6'' 3
          [\<lparr>message = ''earlier'', category = PTBDeprecationWarning, stacklevel = 1\<rparr>])
     = [\<lparr>message = ''earlier'', category = PTBDeprecationWarning, stacklevel = 1\<rparr>]"
proof -
  have raised: "isl (fst (warn_about_deprecated_arg_return_new_arg (PInt 1) (PInt 2)
          ''thumb'' ''thumbnail'' ''6.6'' 3
          [\<lparr>message = ''earlier'', category = PTBDeprecationWarning, stacklevel = 1\<rparr>]))"
    by (simp add: warn_about_deprecated_arg_return_new_arg_def py_ne_def)
  from raised show ?thesis
    using conflict_leaves_channel [OF raised]
    by simp
qed

section \<open>The attribute notice\<close>

text \<open>
  Claim C8. Every call of \<^verbatim>\<open>warn_about_deprecated_attr_in_property\<close>, whatever the
  two attribute names and the API version, appends exactly one deprecation notice to
  the channel, whose message contains both names and the version; the call returns
  \<^verbatim>\<open>None\<close> and raises nothing.
\<close>

theorem attribute_notice_always:
  "warn_about_deprecated_attr_in_property dn nn v lvl ch
     = (Inr PNone, ch @ [\<lparr>message = renamed_attribute_message dn nn v,
                            category = PTBDeprecationWarning, stacklevel = lvl\<rparr>]) \<and>
   sublist dn (renamed_attribute_message dn nn v) \<and>
   sublist nn (renamed_attribute_message dn nn v) \<and>
   sublist v (renamed_attribute_message dn nn v)"
  by (simp add: warn_about_deprecated_attr_in_property_def warn_def
      renamed_attribute_message_names)

theorem attribute_notice_always_witness:
  "warn_about_deprecated_attr_in_property ''thumb'' ''thumbnail'' ''6.6'' 3 []
     = (Inr PNone,
        [\<lparr>message = ''Bot API 6.6 renamed the attribute 'thumb' to 'thumbnail'.'',
          category = PTBDeprecationWarning, stacklevel = 3\<rparr>])"
proof -
  have literal: "renamed_attribute_message ''thumb'' ''thumbnail'' ''6.6''
      = ''Bot API 6.6 renamed the attribute 'thumb' to 'thumbnail'.''"
    by (simp add: renamed_attribute_message_def quoted_def)
  show ?thesis
    using attribute_notice_always [of "''thumb''" "''thumbnail''" "''6.6''" 3 "[]"]
    by (simp add: literal)
qed

section \<open>The pre-bound resolver\<close>

text \<open>Binding the arguments of the two usual ways of calling the partial object: the
  two values by position, or by their keywords as the library's call sites do.\<close>

lemma bind_thumb_positional:
  "bind_arguments parameters [d, n]
      [(''deprecated_arg_name'', PStr ''thumb''), (''new_arg_name'', PStr ''thumbnail''),
       (''bot_api_version'', PStr ''6.6'')]
     = Inr [d, n, PStr ''thumb'', PStr ''thumbnail'', PStr ''6.6'', PInt 3]"
  by (simp add: parameters_def keys_def)

lemma bind_thumb_keywords:
  "bind_arguments parameters []
      [(''deprecated_arg_name'', PStr ''thumb''), (''new_arg_name'', PStr ''thumbnail''),
       (''bot_api_version'', PStr ''6.6''), (''deprecated_arg'', d), (''new_arg'', n)]
     = Inr [d, n, PStr ''thumb'', PStr ''thumbnail'', PStr ''6.6'', PInt 3]"
  by (simp add: parameters_def keys_def)

text \<open>
  Claim C9. For every pair of values, calling \<^verbatim>\<open>warn_about_thumb_return_thumbnail\<close> on
  them is the same (same value or error, same channel) as calling
  \<^verbatim>\<open>warn_about_deprecated_arg_return_new_arg\<close> with the two values and
  \<^verbatim>\<open>deprecated_arg_name="thumb"\<close>, \<^verbatim>\<open>new_arg_name="thumbnail"\<close>,
  \<^verbatim>\<open>bot_api_version="6.6"\<close>, the stack level being its default 3. This holds for the
  two values passed by position and for the two values passed by keyword.
\<close>

theorem thumb_is_prebound_resolver:
  "warn_about_thumb_return_thumbnail [d, n] [] ch
     = call_warn_about_deprecated_arg_return_new_arg [d, n]
         [(''deprecated_arg_name'', PStr ''thumb''), (''new_arg_name'', PStr ''thumbnail''),
          (''bot_api_version'', PStr ''6.6'')] ch \<and>
   warn_about_thumb_return_thumbnail [d, n] [] ch
     = Some (warn_about_deprecated_arg_return_new_arg d n
               ''thumb'' ''thumbnail'' ''6.6'' 3 ch) \<and>
   warn_about_thumb_return_thumbnail [] [(''deprecated_arg'', d), (''new_arg'', n)] ch
     = Some (warn_about_deprecated_arg_return_new_arg d n
               ''thumb'' ''thumbnail'' ''6.6'' 3 ch)"
proof -
  have merged: "dict_merge
      [(''deprecated_arg_name'', PStr ''thumb''), (''new_arg_name'', PStr ''thumbnail''),
       (''bot_api_version'', PStr ''6.6'')]
      [(''deprecated_arg'', d), (''new_arg'', n)]
    = [(''deprecated_arg_name'', PStr ''thumb''), (''new_arg_name'', PStr ''thumbnail''),
       (''bot_api_version'', PStr ''6.6''), (''deprecated_arg'', d), (''new_arg'', n)]"
    by (simp add: dict_merge_def)
  have positional: "warn_about_thumb_return_thumbnail [d, n] [] ch
     = call_warn_about_deprecated_arg_return_new_arg [d, n]
         [(''deprecated_arg_name'', PStr ''thumb''), (''new_arg_name'', PStr ''thumbnail''),
          (''bot_api_version'', PStr ''6.6'')] ch"
    by (simp add: warn_about_thumb_return_thumbnail_def partial_def dict_merge_def)
  have direct: "call_warn_about_deprecated_arg_return_new_arg [d, n]
         [(''deprecated_arg_name'', PStr ''thumb''), (''new_arg_name'', PStr ''thumbnail''),
          (''bot_api_version'', PStr ''6.6'')] ch
     = Some (warn_about_deprecated_arg_return_new_arg d n
               ''thumb'' ''thumbnail'' ''6.6'' 3 ch)"
    by (simp add: call_warn_about_deprecated_arg_return_new_arg_def bind_thumb_positional)
  have by_keyword: "warn_about_thumb_return_thumbnail []
         [(''deprecated_arg'', d), (''new_arg'', n)] ch
     = Some (warn_about_deprecated_arg_return_new_arg d n
               ''thumb'' ''thumbnail'' ''6.6'' 3 ch)"
    by (simp add: warn_about_thumb_return_thumbnail_def partial_def merged
        call_warn_about_deprecated_arg_return_new_arg_def bind_thumb_keywords)
  from positional direct by_keyword show ?thesis
    by simp
qed

text \<open>The scenario of the specification, through the partial object.\<close>

theorem thumb_is_prebound_resolver_witness:
  "warn_about_thumb_return_thumbnail [PStr ''a.jpg'', PNone] [] []
     = Some (Inr (PStr ''a.jpg''),
        [\<lparr>message = ''Bot API 6.6 renamed the argument 'thumb' to 'thumbnail'.'',
          category = PTBDeprecationWarning, stacklevel = 3\<rparr>]) \<and>
   warn_about_thumb_return_thumbnail []
       [(''deprecated_arg'', PStr ''a.jpg''), (''new_arg'', PNone)] []
     = Some (Inr (PStr ''a.jpg''),
        [\<lparr>message = ''Bot API 6.6 renamed the argument 'thumb' to 'thumbnail'.'',
          category = PTBDeprecationWarning, stacklevel = 3\<rparr>])"
proof -
  note inst = thumb_is_prebound_resolver [of "PStr ''a.jpg''" PNone "[]"]
  have positional: "warn_about_thumb_return_thumbnail [PStr ''a.jpg'', PNone] [] []
      = Some (warn_about_deprecated_arg_return_new_arg (PStr ''a.jpg'') PNone
                ''thumb'' ''thumbnail'' ''6.6'' 3 [])"
    by (rule inst [THEN conjunct2, THEN conjunct1])
  have by_keyword: "warn_about_thumb_return_thumbnail []
        [(''deprecated_arg'', PStr ''a.jpg''), (''new_arg'', PNone)] []
      = Some (warn_about_deprecated_arg_return_new_arg (PStr ''a.jpg'') PNone
                ''thumb'' ''thumbnail'' ''6.6'' 3 [])"
    by (rule inst [THEN conjunct2, THEN conjunct2])
  have resolved: "warn_about_deprecated_arg_return_new_arg (PStr ''a.jpg'') PNone
        ''thumb'' ''thumbnail'' ''6.6'' 3 []
      = (Inr (PStr ''a.jpg''),
        [\<lparr>message = ''Bot API 6.6 renamed the argument 'thumb' to 'thumbnail'.'',
          category = PTBDeprecationWarning, stacklevel = 3\<rparr>])"
    by (simp add: warn_about_deprecated_arg_return_new_arg_def warn_def
        renamed_argument_message_def quoted_def)
  show ?thesis
    by (simp only: positional by_keyword resolved)
qed

section \<open>The keyword-rename decorator\<close>

text \<open>The loop appends, in order, one notice for each pair of its list whose deprecated
  name is a key of the keyword arguments.\<close>

lemma warn_loop_emits:
  "warn_loop ps v kw ch =
     ch @ map (\<lambda>(d, n). \<lparr>message = renamed_kwarg_message d n v,
                           category = PTBDeprecationWarning, stacklevel = 3\<rparr>)
            (filter (\<lambda>(d, n). d \<in> set (keys kw)) ps)"
  by (induction ps arbitrary: ch) (auto simp: warn_def)

lemma zip_take_min:
  "zip (take (min (length xs) (length ys)) xs) (take (min (length xs) (length ys)) ys)
     = zip xs ys"
  by (induction xs ys rule: list_induct2') auto

lemma zip_by_index:
  "zip xs ys = map (\<lambda>i. (xs ! i, ys ! i)) [0..<min (length xs) (length ys)]"
  by (rule nth_equalityI) auto

text \<open>
  Claim C6. For every wrapped function and every call, the wrapper emits exactly one
  deprecation notice for each (deprecated, new) pair whose deprecated name is among
  the keyword arguments of the call, and then calls the wrapped function with the
  positional and keyword arguments as they came; what the wrapped function yields is
  what the wrapper yields.
\<close>

theorem wrapper_warns_then_forwards:
  "warn_about_required_renamed_param_passed_as_kwarg deprecated_param_names
       new_param_names v func args kw ch =
     func args kw
       (ch @ map (\<lambda>(d, n). \<lparr>message = renamed_kwarg_message d n v,
                              category = PTBDeprecationWarning, stacklevel = 3\<rparr>)
               (filter (\<lambda>(d, n). d \<in> set (keys kw))
                  (zip deprecated_param_names new_param_names)))"
  by (simp add: warn_about_required_renamed_param_passed_as_kwarg_def warn_loop_emits)

text \<open>A call with the keyword \<^verbatim>\<open>thumb\<close>, through a function that hands back what it
  was given.\<close>

theorem wrapper_warns_then_forwards_witness:
  "warn_about_required_renamed_param_passed_as_kwarg
       [''thumb'', ''old''] [''thumbnail'', ''new''] ''6.6''
       (\<lambda>a k c. (Inr (PList a) :: error + pyval, k, c))
       [PInt 1] [(''thumb'', PInt 2)] []
     = (Inr (PList [PInt 1]), [(''thumb'', PInt 2)],
        [\<lparr>message = renamed_kwarg_message ''thumb'' ''thumbnail'' ''6.6'',
          category = PTBDeprecationWarning, stacklevel = 3\<rparr>])"
  using wrapper_warns_then_forwards
    [of "[''thumb'', ''old'']" "[''thumbnail'', ''new'']" "''6.6''"
        "\<lambda>a k c. (Inr (PList a) :: error + pyval, k, c)"
        "[PInt 1]" "[(''thumb'', PInt 2)]" "[]"]
  by (simp add: keys_def)

text \<open>
  Claim C7. Deprecated and new names are paired by position, and when the two
  sequences differ in length the names beyond the length of the shorter one are
  skipped: the wrapper behaves as it does on the two sequences cut to that length, and
  its notices are those of the positions below that length.
\<close>

theorem unpaired_names_skipped:
  "warn_about_required_renamed_param_passed_as_kwarg deprecated_param_names
       new_param_names v func args kw ch =
     warn_about_required_renamed_param_passed_as_kwarg
       (take (min (length deprecated_param_names) (length new_param_names))
          deprecated_param_names)
       (take (min (length deprecated_param_names) (length new_param_names))
          new_param_names) v func args kw ch \<and>
   warn_about_required_renamed_param_passed_as_kwarg deprecated_param_names
       new_param_names v func args kw ch =
     func args kw
       (ch @ map (\<lambda>i. \<lparr>message = renamed_kwarg_message (deprecated_param_names ! i)
                                      (new_param_names ! i) v,
                         category = PTBDeprecationWarning, stacklevel = 3\<rparr>)
               (filter (\<lambda>i. deprecated_param_names ! i \<in> set (keys kw))
                  [0..<min (length deprecated_param_names) (length new_param_names)]))"
proof -
  let ?m = "min (length deprecated_param_names) (length new_param_names)"
  have cut: "zip (take ?m deprecated_param_names) (take ?m new_param_names)
      = zip deprecated_param_names new_param_names"
    by (rule zip_take_min)
  have idx: "zip deprecated_param_names new_param_names
      = map (\<lambda>i. (deprecated_param_names ! i, new_param_names ! i)) [0..<?m]"
    by (rule zip_by_index)
  have first: "warn_about_required_renamed_param_passed_as_kwarg deprecated_param_names
       new_param_names v func args kw ch =
     warn_about_required_renamed_param_passed_as_kwarg
       (take ?m deprecated_param_names) (take ?m new_param_names) v func args kw ch"
    by (simp only: warn_about_required_renamed_param_passed_as_kwarg_def cut)
  have second: "warn_loop (zip deprecated_param_names new_param_names) v kw ch
      = ch @ map (\<lambda>i. \<lparr>message = renamed_kwarg_message (deprecated_param_names ! i)
                                      (new_param_names ! i) v,
                         category = PTBDeprecationWarning, stacklevel = 3\<rparr>)
               (filter (\<lambda>i. deprecated_param_names ! i \<in> set (keys kw)) [0..<?m])"
    unfolding warn_loop_emits
    by (subst idx) (simp add: filter_map comp_def)
  show ?thesis
    using first second
    by (simp add: warn_about_required_renamed_param_passed_as_kwarg_def)
qed

text \<open>The name \<^verbatim>\<open>extra\<close> has no partner: passing it as a keyword warns about
  nothing.\<close>

theorem unpaired_names_skipped_witness:
  "warn_about_required_renamed_param_passed_as_kwarg
       [''thumb'', ''extra''] [''thumbnail''] ''6.6''
       (\<lambda>a k c. (Inr (PList a) :: error + pyval, k, c))
       [PInt 1] [(''extra'', PInt 2)] []
     = (Inr (PList [PInt 1]), [(''extra'', PInt 2)], []) \<and>
   warn_about_required_renamed_param_passed_as_kwarg
       [''thumb'', ''extra''] [''thumbnail''] ''6.6''
       (\<lambda>a k c. (Inr (PList a) :: error + pyval, k, c))
       [PInt 1] [(''extra'', PInt 2)] []
     = warn_about_required_renamed_param_passed_as_kwarg
       [''thumb''] [''thumbnail''] ''6.6''
       (\<lambda>a k c. (Inr (PList a) :: error + pyval, k, c))
       [PInt 1] [(''extra'', PInt 2)] []"
  using unpaired_names_skipped
    [of "[''thumb'', ''extra'']" "[''thumbnail'']" "''6.6''"
        "\<lambda>a k c. (Inr (PList a) :: error + pyval, k, c)"
        "[PInt 1]" "[(''extra'', PInt 2)]" "[]"]
  by (simp add: keys_def warn_about_required_renamed_param_passed_as_kwarg_def)

end
